theory Spec2Isabelle
  imports Main "HOL-Library.AList"
begin

section \<open>JavaScript values and objects\<close>

text \<open>
  The service works on dynamically typed entity objects: it reads properties
  (\<^verbatim>\<open>findUser.password\<close>, \<^verbatim>\<open>userByEmail?.verifyEmail\<close>, \<^verbatim>\<open>decoded.email\<close>), tests them
  for truthiness and removes properties by rest-destructuring.  An object is therefore an
  ordered property list; a missing property reads as \<^verbatim>\<open>undefined\<close>.
\<close>

datatype jsval =
    JUndefined
  | JNull
  | JBool bool
  | JNum int
  | JStr string
  | JDate nat
  | JObj "(string \<times> jsval) list"

type_synonym obj = "(string \<times> jsval) list"

text \<open>JavaScript truthiness, as used by \<^verbatim>\<open>if (x)\<close>, \<^verbatim>\<open>!x\<close> and \<^verbatim>\<open>&&\<close>.\<close>

fun truthy :: "jsval \<Rightarrow> bool" where
  "truthy JUndefined = False"
| "truthy JNull = False"
| "truthy (JBool b) = b"
| "truthy (JNum n) = (n \<noteq> 0)"
| "truthy (JStr s) = (s \<noteq> [])"
| "truthy (JDate t) = True"
| "truthy (JObj ps) = True"

text \<open>Property read \<^verbatim>\<open>o.k\<close>.\<close>

definition getprop :: "obj \<Rightarrow> string \<Rightarrow> jsval" where
  "getprop ob k = (case map_of ob k of None \<Rightarrow> JUndefined | Some v \<Rightarrow> v)"

text \<open>Property write \<^verbatim>\<open>o.k = v\<close>.\<close>

definition setprop :: "obj \<Rightarrow> string \<Rightarrow> jsval \<Rightarrow> obj" where
  "setprop ob k v = AList.update k v ob"

text \<open>
  Rest-destructuring \<^verbatim>\<open>const {k1, ..., kn, ...rest} = o\<close>: the object \<^verbatim>\<open>rest\<close> holds
  every property of \<^verbatim>\<open>o\<close> except the named ones.
\<close>

definition omit :: "string list \<Rightarrow> obj \<Rightarrow> obj" where
  "omit ks ob = filter (\<lambda>p. fst p \<notin> set ks) ob"

text \<open>
  The request body \<^verbatim>\<open>AuthenDTO\<close>.  \<^verbatim>\<open>username\<close> and \<^verbatim>\<open>email\<close> may be absent
  (\<open>None\<close>); \<^verbatim>\<open>password\<close> is a string, the empty string being the falsy one.
\<close>

record AuthenDTO =
  dto_username :: "string option"
  dto_email :: "string option"
  dto_password :: string

text \<open>Truthiness of an optional string: absent and empty are both falsy.\<close>

definition present :: "string option \<Rightarrow> bool" where
  "present x = (case x of None \<Rightarrow> False | Some s \<Rightarrow> s \<noteq> [])"

section \<open>Collaborators\<close>

subsection \<open>Configuration\<close>

text \<open>
  Modelled from the spec: the module \<^verbatim>\<open>src/config\<close> (\<^verbatim>\<open>env\<close>) is not among the sources.
  The service reads \<^verbatim>\<open>env.mailer.time\<close> (expiry window of reset and verification tokens,
  here in seconds) and \<^verbatim>\<open>env.dns\<close>; the token service holds the signing secret and the
  default expiry of the module registration.
\<close>

record config =
  jwt_secret :: string
  jwt_expiresIn :: "nat option"
  mailer_time :: nat
  dns :: string

subsection \<open>Token service\<close>

text \<open>
  \<^verbatim>\<open>JwtService\<close> is an external library; the spec gives its contract.  A token carries its
  claims, issued-at time, optional expiry and a signature.  The signature is an ideal one:
  it records the key and the signed content, so it matches exactly when the token was signed
  with the same key and has not been altered since.
\<close>

record jwt =
  jwt_payload :: obj
  jwt_iat :: nat
  jwt_exp :: "nat option"
  jwt_sig :: "string \<times> obj \<times> nat \<times> nat option"

datatype jwt_error = TokenInvalid | TokenExpired

text \<open>
  Modelled from the spec: \<^verbatim>\<open>sign(claims, options?) -> token\<close> of the external \<^verbatim>\<open>JwtService\<close>
  serialises the claims plus issued-at and expiry (\<^verbatim>\<open>options.expiresIn\<close> if given, else the
  service default) into an artifact signed with the server-held secret.
\<close>

definition jwt_sign :: "config \<Rightarrow> nat \<Rightarrow> obj \<Rightarrow> nat option \<Rightarrow> jwt" where
  "jwt_sign cfg now claims expiresIn =
     (let e = (case expiresIn of
                 Some t \<Rightarrow> Some (now + t)
               | None \<Rightarrow> map_option (\<lambda>t. now + t) (jwt_expiresIn cfg))
      in \<lparr>jwt_payload = claims, jwt_iat = now, jwt_exp = e,
          jwt_sig = (jwt_secret cfg, claims, now, e)\<rparr>)"

text \<open>
  Modelled from the spec: \<^verbatim>\<open>verify(token) -> claims\<close> of the external \<^verbatim>\<open>JwtService\<close> fails
  with \<open>TokenInvalid\<close> if the signature does not match, or \<open>TokenExpired\<close> if the
  current time exceeds the encoded expiry; otherwise it returns the claim map unchanged.
\<close>

definition jwt_verify :: "config \<Rightarrow> nat \<Rightarrow> jwt \<Rightarrow> jwt_error + obj" where
  "jwt_verify cfg now t =
     (if jwt_sig t \<noteq> (jwt_secret cfg, jwt_payload t, jwt_iat t, jwt_exp t) then Inl TokenInvalid
      else case jwt_exp t of
             None \<Rightarrow> Inr (jwt_payload t)
           | Some e \<Rightarrow> if e < now then Inl TokenExpired else Inr (jwt_payload t))"

subsection \<open>Password hasher\<close>

text \<open>What a collaborator throws: the hasher on malformed arguments, the mailer on a failed
  delivery.\<close>

datatype exn = BcryptError | MailError

text \<open>
  Modelled from the spec: \<^verbatim>\<open>bcrypt\<close> is an external library, taken as a parameter of the
  service.  \<^verbatim>\<open>hash(plaintext, rounds)\<close> never fails; the salt it draws is part of the
  parameter, so a statement about every hasher covers every salt.
  \<^verbatim>\<open>compare(plaintext, hash)\<close> answers a boolean or throws (on a stored value that is no
  string).
\<close>

record hasher =
  bcrypt_hash :: "string \<Rightarrow> nat \<Rightarrow> string"
  bcrypt_compare :: "string \<Rightarrow> jsval \<Rightarrow> exn + bool"

subsection \<open>World: credential store and mail transport\<close>

text \<open>
  A link \<^verbatim>\<open>`${env.dns}<path>${token}`\<close> and the message handed to \<^verbatim>\<open>sendMail\<close>.  The HTML
  body is a fixed template around the link and the expiry window, which are kept as fields.
\<close>

datatype link = Link string string jwt

record mail =
  mail_to :: string
  mail_subject :: string
  mail_text :: string
  mail_link :: link
  mail_expires :: nat

datatype query = ByUsername string | ByEmail jsval

text \<open>
  The state outside the service: the stored accounts, the messages delivered so far, the
  log of lookups issued to the store, and whether the mail transport is reachable.
\<close>

record world =
  accounts :: "obj list"
  outbox :: "mail list"
  queries :: "query list"
  mailer_up :: bool

text \<open>
  \<^verbatim>\<open>UserAccountUtil\<close> (\<^verbatim>\<open>src/modules/authen/user-account.util\<close>) and the \<^verbatim>\<open>UserAccount\<close>
  entity are not among the sources.  The spec gives the store's contract and the account's
  attributes: a username, an email, a password hash, a verified flag and creation/update
  timestamps.  Each operation below follows that contract.
\<close>

text \<open>
  Modelled from the spec: \<^verbatim>\<open>findByUsername(s) -> Account?\<close> of the absent \<^verbatim>\<open>UserAccountUtil\<close>,
  the account stored under that username, if any.
\<close>

definition lookupByUsername :: "obj list \<Rightarrow> string \<Rightarrow> obj option" where
  "lookupByUsername accts s = find (\<lambda>a. getprop a ''username'' = JStr s) accts"

text \<open>
  Modelled from the spec: \<^verbatim>\<open>findByEmail(s) -> Account?\<close> of the absent \<^verbatim>\<open>UserAccountUtil\<close>,
  the account stored under that email, if any.  The service also passes it the untyped
  \<^verbatim>\<open>decoded.email\<close>; a key that is no string matches no account.
\<close>

fun lookupByEmail :: "obj list \<Rightarrow> jsval \<Rightarrow> obj option" where
  "lookupByEmail accts (JStr s) = find (\<lambda>a. getprop a ''email'' = JStr s) accts"
| "lookupByEmail accts _ = None"

text \<open>
  Modelled from the spec: the call \<^verbatim>\<open>userAccountUtil.findByUsername\<close>, a lookup that leaves
  its trace in the query log.
\<close>

definition findByUsername :: "world \<Rightarrow> string \<Rightarrow> obj option \<times> world" where
  "findByUsername w s =
     (lookupByUsername (accounts w) s, w\<lparr>queries := queries w @ [ByUsername s]\<rparr>)"

text \<open>
  Modelled from the spec: the call \<^verbatim>\<open>userAccountUtil.findByEmail\<close>, a lookup that leaves
  its trace in the query log.
\<close>

definition findByEmail :: "world \<Rightarrow> jsval \<Rightarrow> obj option \<times> world" where
  "findByEmail w k =
     (lookupByEmail (accounts w) k, w\<lparr>queries := queries w @ [ByEmail k]\<rparr>)"

text \<open>
  Modelled from the spec: \<^verbatim>\<open>create(username, hash) -> Account\<close> of the absent
  \<^verbatim>\<open>UserAccountUtil\<close>, a new account object with that username and hash, not yet stored.
\<close>

definition create :: "string \<Rightarrow> string \<Rightarrow> obj" where
  "create username hash = [(''username'', JStr username), (''password'', JStr hash)]"

text \<open>
  Modelled from the spec: the column defaults of the absent \<^verbatim>\<open>UserAccount\<close> entity.  An
  attribute the object does not carry yet is stored with its default.
\<close>

definition with_default :: "string \<Rightarrow> jsval \<Rightarrow> obj \<Rightarrow> obj" where
  "with_default k v ob = (if map_of ob k = None then ob @ [(k, v)] else ob)"

text \<open>
  Modelled from the spec: \<^verbatim>\<open>save(Account)\<close> of the absent \<^verbatim>\<open>UserAccountUtil\<close> persists the
  account.  A new account is stored unverified, without email, with both timestamps set to
  the current time; there is one account per username, so an account saved under a stored
  username takes that account's place.
\<close>

definition save :: "nat \<Rightarrow> world \<Rightarrow> obj \<Rightarrow> world" where
  "save now w user =
     (let row = with_default ''updated_at'' (JDate now)
                  (with_default ''created_at'' (JDate now)
                    (with_default ''verifyEmail'' (JBool False)
                      (with_default ''email'' JNull user)))
      in if find (\<lambda>a. getprop a ''username'' = getprop row ''username'') (accounts w) = None
         then w\<lparr>accounts := accounts w @ [row]\<rparr>
         else w\<lparr>accounts := map (\<lambda>a. if getprop a ''username'' = getprop row ''username''
                                       then row else a) (accounts w)\<rparr>)"

text \<open>
  Modelled from the spec: \<^verbatim>\<open>updatePassword(Account, hash) -> void\<close> of the absent
  \<^verbatim>\<open>UserAccountUtil\<close>: the store persists the hash it is handed as the account's password.
\<close>

definition updatePassword :: "world \<Rightarrow> obj \<Rightarrow> string \<Rightarrow> world" where
  "updatePassword w user hash =
     w\<lparr>accounts := map (\<lambda>a. if a = user then setprop a ''password'' (JStr hash) else a)
                       (accounts w)\<rparr>"

text \<open>
  Modelled from the spec: \<^verbatim>\<open>markVerified(Account) -> void\<close> (\<^verbatim>\<open>updateVerifyEmail\<close> of the
  absent \<^verbatim>\<open>UserAccountUtil\<close>): the store sets the account's verified flag to true.
\<close>

definition updateVerifyEmail :: "world \<Rightarrow> obj \<Rightarrow> world" where
  "updateVerifyEmail w user =
     w\<lparr>accounts := map (\<lambda>a. if a = user then setprop a ''verifyEmail'' (JBool True) else a)
                       (accounts w)\<rparr>"

text \<open>
  Modelled from the spec: \<^verbatim>\<open>sendMail\<close> of the absent \<^verbatim>\<open>MailService\<close> delivers the message or
  fails with a delivery error.
\<close>

definition sendMail :: "world \<Rightarrow> mail \<Rightarrow> (exn + unit) \<times> world" where
  "sendMail w m =
     (if mailer_up w then (Inr (), w\<lparr>outbox := outbox w @ [m]\<rparr>) else (Inl MailError, w))"

section \<open>AuthenService\<close>

text \<open>
  What a service method returns to the controller: nothing (\<^verbatim>\<open>undefined\<close>), a status
  number, or the object \<^verbatim>\<open>{ message }\<close>.
\<close>

datatype result = RVoid | RStatus nat | RMessage string

text \<open>
  \<^verbatim>\<open>createUser\<close>: \<^verbatim>\<open>if (!username || !password) return 400\<close>, then \<^verbatim>\<open>return 409\<close> if the
  username is found, else hash with 12 rounds, create and save; the method then returns
  nothing.
\<close>

definition createUser :: "hasher \<Rightarrow> nat \<Rightarrow> world \<Rightarrow> AuthenDTO \<Rightarrow> result \<times> world" where
  "createUser h now w dto =
     (case dto_username dto of
        None \<Rightarrow> (RStatus 400, w)
      | Some username \<Rightarrow>
          if username = [] \<or> dto_password dto = [] then (RStatus 400, w)
          else
            (case findByUsername w username of
               (Some findUser, w1) \<Rightarrow> (RStatus 409, w1)
             | (None, w1) \<Rightarrow>
                 (let ecryptPassword = bcrypt_hash h (dto_password dto) 12;
                      user = create username ecryptPassword
                  in (RVoid, save now w1 user))))"

text \<open>The properties removed from the account before it is signed as session claims.\<close>

definition session_claims :: "obj \<Rightarrow> obj" where
  "session_claims findUser =
     omit [''password'', ''profile'', ''verifyEmail'', ''created_at'', ''updated_at''] findUser"

text \<open>
  \<^verbatim>\<open>validateUser\<close>: \<^verbatim>\<open>if (username && email) return null\<close>; look the account up by username
  if one is given; \<^verbatim>\<open>if (!findUser && email)\<close> look it up by email and keep it only if its
  \<^verbatim>\<open>verifyEmail\<close> is truthy; \<^verbatim>\<open>if (!findUser) return null\<close>; on a matching password sign the
  remaining claims with the service's default options, else return \<^verbatim>\<open>null\<close>.
\<close>

definition validateUser ::
  "hasher \<Rightarrow> config \<Rightarrow> nat \<Rightarrow> world \<Rightarrow> AuthenDTO \<Rightarrow> (exn + jwt option) \<times> world" where
  "validateUser h cfg now w dto =
     (if present (dto_username dto) \<and> present (dto_email dto) then (Inr None, w)
      else
        (let (byName, w1) =
               (case dto_username dto of
                  None \<Rightarrow> (None, w)
                | Some username \<Rightarrow>
                    if username \<noteq> [] then findByUsername w username else (None, w));
             (findUser, w2) =
               (case (byName, dto_email dto) of
                  (None, Some email) \<Rightarrow>
                    if email \<noteq> [] then
                      (case findByEmail w1 (JStr email) of
                         (None, w') \<Rightarrow> (None, w')
                       | (Some userByEmail, w') \<Rightarrow>
                           (if truthy (getprop userByEmail ''verifyEmail'')
                            then Some userByEmail else None, w'))
                    else (None, w1)
                | _ \<Rightarrow> (byName, w1))
         in case findUser of
              None \<Rightarrow> (Inr None, w2)
            | Some user \<Rightarrow>
                (case bcrypt_compare h (dto_password dto) (getprop user ''password'') of
                   Inl e \<Rightarrow> (Inl e, w2)
                 | Inr True \<Rightarrow> (Inr (Some (jwt_sign cfg now (session_claims user) None)), w2)
                 | Inr False \<Rightarrow> (Inr None, w2))))"

text \<open>
  \<^verbatim>\<open>forgotPassword\<close>: status 400 if no account has the email; else sign \<^verbatim>\<open>{ email }\<close> with
  \<^verbatim>\<open>expiresIn: env.mailer.time\<close> and mail the reset link.  A failing mailer throws.
\<close>

definition forgotPassword ::
  "config \<Rightarrow> nat \<Rightarrow> world \<Rightarrow> string \<Rightarrow> (exn + result) \<times> world" where
  "forgotPassword cfg now w email =
     (case findByEmail w (JStr email) of
        (None, w1) \<Rightarrow> (Inr (RStatus 400), w1)
      | (Some user, w1) \<Rightarrow>
          (let payload = [(''email'', JStr email)];
               token = jwt_sign cfg now payload (Some (mailer_time cfg));
               resetLink = Link (dns cfg) ''/reset-password?token='' token
           in case sendMail w1 \<lparr>mail_to = email, mail_subject = ''Reset password'',
                     mail_text = ''Dear user,\<newline>\<newline>We received a request to reset your password...'',
                     mail_link = resetLink, mail_expires = mailer_time cfg\<rparr> of
                (Inl e, w2) \<Rightarrow> (Inl e, w2)
              | (Inr u, w2) \<Rightarrow> (Inr RVoid, w2)))"

text \<open>
  \<^verbatim>\<open>resetPassword\<close>: inside \<^verbatim>\<open>try\<close>, verify the token, look the account up by
  \<^verbatim>\<open>decoded.email\<close>, return 400 if there is none, else call
  \<^verbatim>\<open>updatePassword(user, newPassword)\<close>; \<^verbatim>\<open>catch\<close> returns 409.
\<close>

definition resetPassword ::
  "config \<Rightarrow> nat \<Rightarrow> world \<Rightarrow> jwt \<Rightarrow> string \<Rightarrow> result \<times> world" where
  "resetPassword cfg now w token newPassword =
     (case jwt_verify cfg now token of
        Inl error \<Rightarrow> (RStatus 409, w)
      | Inr decoded \<Rightarrow>
          (let email = getprop decoded ''email'' in
           case findByEmail w email of
             (None, w1) \<Rightarrow> (RStatus 400, w1)
           | (Some user, w1) \<Rightarrow> (RVoid, updatePassword w1 user newPassword)))"

text \<open>
  \<^verbatim>\<open>verifyEmail\<close>: status 400 if no account has the email, 409 if its \<^verbatim>\<open>verifyEmail\<close> is
  truthy; else sign \<^verbatim>\<open>{ email }\<close> with \<^verbatim>\<open>expiresIn: env.mailer.time\<close> and mail the
  verification link.
\<close>

definition verifyEmail ::
  "config \<Rightarrow> nat \<Rightarrow> world \<Rightarrow> string \<Rightarrow> (exn + result) \<times> world" where
  "verifyEmail cfg now w email =
     (case findByEmail w (JStr email) of
        (None, w1) \<Rightarrow> (Inr (RStatus 400), w1)
      | (Some user, w1) \<Rightarrow>
          if truthy (getprop user ''verifyEmail'') then (Inr (RStatus 409), w1)
          else
            (let payload = [(''email'', JStr email)];
                 token = jwt_sign cfg now payload (Some (mailer_time cfg));
                 verifyLink = Link (dns cfg) ''/verify?token='' token
             in case sendMail w1 \<lparr>mail_to = email, mail_subject = ''Verify email'',
                       mail_text = ''Dear user,\<newline>\<newline>We received a request to verify your email...'',
                       mail_link = verifyLink, mail_expires = mailer_time cfg\<rparr> of
                  (Inl e, w2) \<Rightarrow> (Inl e, w2)
                | (Inr u, w2) \<Rightarrow> (Inr RVoid, w2)))"

text \<open>
  \<^verbatim>\<open>verify\<close>: inside \<^verbatim>\<open>try\<close>, verify the token, look the account up by \<^verbatim>\<open>decoded.email\<close>,
  return 409 if there is none, else call \<^verbatim>\<open>updateVerifyEmail(user)\<close> and return
  \<^verbatim>\<open>{ message: 'Verified' }\<close>; \<^verbatim>\<open>catch\<close> returns 400.
\<close>

definition verify :: "config \<Rightarrow> nat \<Rightarrow> world \<Rightarrow> jwt \<Rightarrow> result \<times> world" where
  "verify cfg now w token =
     (case jwt_verify cfg now token of
        Inl error \<Rightarrow> (RStatus 400, w)
      | Inr decoded \<Rightarrow>
          (let email = getprop decoded ''email'' in
           case findByEmail w email of
             (None, w1) \<Rightarrow> (RStatus 409, w1)
           | (Some user, w1) \<Rightarrow> (RMessage ''Verified'', updateVerifyEmail w1 user)))"

section \<open>AuthenController\<close>

text \<open>
  The HTTP outcome of a route: the response body of a successful call, or the exception
  the handler throws.  An error that the service lets escape becomes a server error.
  A handler that shares its name with a service method carries the prefix \<open>ctl_\<close>.
\<close>

datatype body = Message string | LoginBody string jwt

datatype http =
    Created body
  | BadRequestException string
  | ConflictException string
  | InternalServerError exn

definition register :: "hasher \<Rightarrow> nat \<Rightarrow> world \<Rightarrow> AuthenDTO \<Rightarrow> http \<times> world" where
  "register h now w authenDTO =
     (case createUser h now w authenDTO of
        (status, w') \<Rightarrow>
          (if status = RStatus 400 then BadRequestException ''Username and password are required''
           else if status = RStatus 409 then ConflictException ''Username already exists''
           else Created (Message ''User created successfully''), w'))"

definition login :: "hasher \<Rightarrow> config \<Rightarrow> nat \<Rightarrow> world \<Rightarrow> AuthenDTO \<Rightarrow> http \<times> world" where
  "login h cfg now w authenDTO =
     (case validateUser h cfg now w authenDTO of
        (Inl e, w') \<Rightarrow> (InternalServerError e, w')
      | (Inr None, w') \<Rightarrow> (BadRequestException ''Wrong username/email or password'', w')
      | (Inr (Some user), w') \<Rightarrow> (Created (LoginBody ''Login successfully'' user), w'))"

definition ctl_forgotPassword :: "config \<Rightarrow> nat \<Rightarrow> world \<Rightarrow> string \<Rightarrow> http \<times> world" where
  "ctl_forgotPassword cfg now w email =
     (case forgotPassword cfg now w email of
        (Inl e, w') \<Rightarrow> (InternalServerError e, w')
      | (Inr status, w') \<Rightarrow>
          (if status = RStatus 400 then BadRequestException ''Account not exist''
           else Created (Message ''Reset link sent''), w'))"

definition ctl_resetPassword ::
  "config \<Rightarrow> nat \<Rightarrow> world \<Rightarrow> jwt \<Rightarrow> string \<Rightarrow> http \<times> world" where
  "ctl_resetPassword cfg now w token newPassword =
     (case resetPassword cfg now w token newPassword of
        (status, w') \<Rightarrow>
          (if status = RStatus 400 then BadRequestException ''Wrong token''
           else if status = RStatus 409 then ConflictException ''Token invalid/expired''
           else Created (Message ''New password set''), w'))"


definition acceptVerifyEmail :: "config \<Rightarrow> nat \<Rightarrow> world \<Rightarrow> jwt \<Rightarrow> http \<times> world" where
  "acceptVerifyEmail cfg now w token =
     (case verify cfg now w token of
        (status, w') \<Rightarrow>
          (if status = RStatus 400 then BadRequestException ''Token invalid/expired''
           else if status = RStatus 409 then ConflictException ''Wrong token''
           else Created (Message ''Verified''), w'))"

section \<open>Concrete inputs\<close>

text \<open>
  A stand-in hasher with the shape of the library's contract: comparing a plaintext with
  its own hash answers true, comparing with a value that is no string throws.
\<close>

definition test_hasher :: hasher where
  "test_hasher =
     \<lparr>bcrypt_hash = (\<lambda>p rounds. ''$2b$'' @ rev p),
      bcrypt_compare = (\<lambda>p v. case v of JStr s \<Rightarrow> Inr (s = ''$2b$'' @ rev p)
                                          | _ \<Rightarrow> Inl BcryptError)\<rparr>"

definition test_config :: config where
  "test_config =
     \<lparr>jwt_secret = ''server-secret'', jwt_expiresIn = Some 3600, mailer_time = 900,
      dns = ''https://example.org''\<rparr>"

text \<open>An unverified account \<open>alice\<close> whose stored hash is that of \<open>Secret1!\<close>.\<close>

definition alice :: obj where
  "alice =
     [(''username'', JStr ''alice''), (''email'', JStr ''alice@x.com''),
      (''password'', JStr ''$2b$!1terceS''), (''verifyEmail'', JBool False),
      (''created_at'', JDate 0), (''updated_at'', JDate 0)]"

definition test_world :: world where
  "test_world = \<lparr>accounts = [alice], outbox = [], queries = [], mailer_up = True\<rparr>"

definition empty_world :: world where
  "empty_world = \<lparr>accounts = [], outbox = [], queries = [], mailer_up = True\<rparr>"

text \<open>The token that \<^const>\<open>forgotPassword\<close> and \<^const>\<open>verifyEmail\<close> sign for alice at time 0.\<close>

definition alice_token :: jwt where
  "alice_token = jwt_sign test_config 0 [(''email'', JStr ''alice@x.com'')] (Some 900)"

text \<open>A token signed for another mailbox whose claims were rewritten afterwards.\<close>

definition tampered_token :: jwt where
  "tampered_token =
     (jwt_sign test_config 0 [(''email'', JStr ''mallory@x.com'')] (Some 900))
       \<lparr>jwt_payload := [(''email'', JStr ''alice@x.com'')]\<rparr>"

text \<open>A verified account \<open>carol\<close> whose stored hash is that of \<open>Passw0rd\<close>.\<close>

definition carol :: obj where
  "carol =
     [(''username'', JStr ''carol''), (''email'', JStr ''carol@x.com''),
      (''password'', JStr ''$2b$dr0wssaP''), (''verifyEmail'', JBool True),
      (''created_at'', JDate 3), (''updated_at'', JDate 4)]"

text \<open>A store that holds alice and carol, in that order.\<close>

definition team_world :: world where
  "team_world = \<lparr>accounts = [alice, carol], outbox = [], queries = [], mailer_up = True\<rparr>"

section \<open>Properties\<close>

subsection \<open>Token service, objects and lookups\<close>

lemma jwt_verify_sign:
  "jwt_verify cfg now' (jwt_sign cfg now claims opt) =
     (case jwt_exp (jwt_sign cfg now claims opt) of
        None \<Rightarrow> Inr claims
      | Some e \<Rightarrow> if e < now' then Inl TokenExpired else Inr claims)"
  by (simp add: jwt_verify_def jwt_sign_def Let_def split: option.splits)

lemma jwt_verify_sign_now: "jwt_verify cfg now (jwt_sign cfg now claims opt) = Inr claims"
  by (simp add: jwt_verify_def jwt_sign_def Let_def split: option.splits)

lemma jwt_payload_sign: "jwt_payload (jwt_sign cfg now claims opt) = claims"
  by (simp add: jwt_sign_def Let_def)

lemma find_in_set: "find P xs = Some x \<Longrightarrow> x \<in> set xs \<and> P x"
  by (induction xs) (auto split: if_splits)

lemma find_append_cases:
  "find P (xs @ ys) = (case find P xs of None \<Rightarrow> find P ys | Some x \<Rightarrow> Some x)"
  by (induction xs) auto

text \<open>Updating the first match of a lookup in place keeps it the first match.\<close>

lemma find_map_update:
  assumes "find P xs = Some u" and "P (g u)"
  shows "find P (map (\<lambda>a. if a = u then g a else a) xs) = Some (g u)"
  using assms
proof (induction xs)
  case Nil
  then show ?case by simp
next
  case (Cons x xs)
  show ?case
  proof (cases "P x")
    case True
    with Cons.prems show ?thesis by simp
  next
    case False
    with Cons.prems have "x \<noteq> u" by (auto dest: find_in_set)
    with False Cons show ?thesis by simp
  qed
qed

lemma getprop_omit:
  "getprop (omit ks ob) k = (if k \<in> set ks then JUndefined else getprop ob k)"
  by (induction ob) (auto simp: getprop_def omit_def)

lemma keys_omit: "fst ` set (omit ks ob) = fst ` set ob - set ks"
  by (auto simp: omit_def)

lemma getprop_setprop:
  "getprop (setprop ob k v) k' = (if k' = k then v else getprop ob k')"
  by (simp add: getprop_def setprop_def update_conv')


lemma lookupByEmail_updatePassword:
  assumes "lookupByEmail (accounts w) (JStr email) = Some a"
  shows "lookupByEmail (accounts (updatePassword w a p)) (JStr email)
           = Some (setprop a ''password'' (JStr p))"
proof -
  have "getprop a ''email'' = JStr email"
    using assms by (auto dest: find_in_set)
  then show ?thesis
    using assms by (simp add: updatePassword_def find_map_update getprop_setprop)
qed

subsection \<open>Facts about the concrete inputs\<close>

lemma alice_by_email: "lookupByEmail (accounts test_world) (JStr ''alice@x.com'') = Some alice"
  by (simp add: test_world_def alice_def getprop_def)

lemma alice_by_username: "lookupByUsername (accounts test_world) ''alice'' = Some alice"
  by (simp add: lookupByUsername_def test_world_def alice_def getprop_def)

lemma bob_unknown: "lookupByUsername (accounts test_world) ''bob'' = None"
  by (simp add: lookupByUsername_def test_world_def alice_def getprop_def)

lemma alice_unverified: "\<not> truthy (getprop alice ''verifyEmail'')"
  by (simp add: alice_def getprop_def)

lemma alice_password:
  "bcrypt_compare test_hasher ''Secret1!'' (getprop alice ''password'') = Inr True"
  by (simp add: alice_def getprop_def test_hasher_def)

lemma alice_claims:
  "session_claims alice = [(''username'', JStr ''alice''), (''email'', JStr ''alice@x.com'')]"
  by (simp add: session_claims_def omit_def alice_def)

lemma test_hasher_roundtrip:
  "bcrypt_compare test_hasher p (JStr (bcrypt_hash test_hasher p n)) = Inr True"
  by (simp add: test_hasher_def)

lemma alice_token_verifies:
  "jwt_verify test_config 10 alice_token = Inr [(''email'', JStr ''alice@x.com'')]"
  by (simp add: alice_token_def jwt_verify_sign) (simp add: jwt_sign_def Let_def)


lemma alice_token_email:
  "getprop [(''email'', JStr ''alice@x.com'')] ''email'' = JStr ''alice@x.com''"
  by (simp add: getprop_def)

subsection \<open>Registration\<close>

text \<open>
  Claim C8, as the code has it.  When the username names a stored account, a registration
  with a non-empty password fails with status 409 (``Username already exists''), whatever
  the password; with an empty password the field check comes first and the registration
  fails with status 400 (``Username and password are required'') without a lookup.
\<close>

theorem register_existing_username:
  assumes "lookupByUsername (accounts w) username = Some a" and "username \<noteq> []"
  shows "(password \<noteq> [] \<longrightarrow>
            createUser h now w
                \<lparr>dto_username = Some username, dto_email = e, dto_password = password\<rparr>
              = (RStatus 409, w\<lparr>queries := queries w @ [ByUsername username]\<rparr>) \<and>
            fst (register h now w
                \<lparr>dto_username = Some username, dto_email = e, dto_password = password\<rparr>)
              = ConflictException ''Username already exists'') \<and>
         (password = [] \<longrightarrow>
            createUser h now w
                \<lparr>dto_username = Some username, dto_email = e, dto_password = password\<rparr>
              = (RStatus 400, w) \<and>
            fst (register h now w
                \<lparr>dto_username = Some username, dto_email = e, dto_password = password\<rparr>)
              = BadRequestException ''Username and password are required'')"
  using assms by (simp add: createUser_def register_def findByUsername_def)

text \<open>Both cases on the stored account alice.\<close>

theorem register_existing_username_witness:
  "lookupByUsername (accounts test_world) ''alice'' = Some alice \<and>
   fst (register test_hasher 5 test_world
      \<lparr>dto_username = Some ''alice'', dto_email = None, dto_password = ''Other2!''\<rparr>)
     = ConflictException ''Username already exists'' \<and>
   fst (register test_hasher 5 test_world
      \<lparr>dto_username = Some ''alice'', dto_email = None, dto_password = []\<rparr>)
     = BadRequestException ''Username and password are required''"
  using alice_by_username
    register_existing_username [OF alice_by_username, of "''Other2!''" test_hasher 5 None]
    register_existing_username [OF alice_by_username, of "[]" test_hasher 5 None]
  by simp

text \<open>
  Against claim C8 as stated: alice is registered, and a registration under her username
  with an empty password fails with status 400, not with 409.
\<close>

theorem register_existing_username_empty_password:
  "lookupByUsername (accounts test_world) ''alice'' = Some alice \<and>
   createUser test_hasher 5 test_world
      \<lparr>dto_username = Some ''alice'', dto_email = None, dto_password = []\<rparr>
     = (RStatus 400, test_world) \<and>
   register test_hasher 5 test_world
      \<lparr>dto_username = Some ''alice'', dto_email = None, dto_password = []\<rparr>
     = (BadRequestException ''Username and password are required'', test_world)"
  by (simp add: createUser_def register_def lookupByUsername_def test_world_def alice_def
      getprop_def)

text \<open>
  Claim C1.  Let the username and the password be non-empty, let no stored account have
  that username, and let the hasher accept a plaintext against its own hash.  Then
  \<^verbatim>\<open>register\<close> succeeds and stores an account under the username, and a following \<^verbatim>\<open>login\<close>
  with the same username and password succeeds with a token that verifies and whose claims
  are the stored account without its password hash, verified flag and timestamps: the
  username and the (still null) email.
\<close>

theorem register_then_login:
  assumes "username \<noteq> []" and "password \<noteq> []"
    and "lookupByUsername (accounts w) username = None"
    and "bcrypt_compare h password (JStr (bcrypt_hash h password 12)) = Inr True"
  shows "\<exists>w1 w2 a token.
           createUser h now w
               \<lparr>dto_username = Some username, dto_email = e, dto_password = password\<rparr>
             = (RVoid, w1) \<and>
           register h now w
               \<lparr>dto_username = Some username, dto_email = e, dto_password = password\<rparr>
             = (Created (Message ''User created successfully''), w1) \<and>
           lookupByUsername (accounts w1) username = Some a \<and>
           validateUser h cfg now' w1
               \<lparr>dto_username = Some username, dto_email = None, dto_password = password\<rparr>
             = (Inr (Some token), w2) \<and>
           login h cfg now' w1
               \<lparr>dto_username = Some username, dto_email = None, dto_password = password\<rparr>
             = (Created (LoginBody ''Login successfully'' token), w2) \<and>
           jwt_verify cfg now' token = Inr (jwt_payload token) \<and>
           jwt_payload token
             = omit [''password'', ''verifyEmail'', ''created_at'', ''updated_at''] a \<and>
           jwt_payload token = [(''username'', JStr username), (''email'', JNull)]"
proof -
  let ?a = "[(''username'', JStr username), (''password'', JStr (bcrypt_hash h password 12)),
             (''email'', JNull), (''verifyEmail'', JBool False),
             (''created_at'', JDate now), (''updated_at'', JDate now)]"
  let ?w1 = "w\<lparr>queries := queries w @ [ByUsername username], accounts := accounts w @ [?a]\<rparr>"
  have none: "find (\<lambda>a. getprop a ''username'' = JStr username) (accounts w) = None"
    using assms(3) by (simp add: lookupByUsername_def)
  have c: "createUser h now w
             \<lparr>dto_username = Some username, dto_email = e, dto_password = password\<rparr>
           = (RVoid, ?w1)"
    using assms(1,2,3) none
    by (simp add: createUser_def findByUsername_def save_def create_def with_default_def
        getprop_def)
  have l: "lookupByUsername (accounts ?w1) username = Some ?a"
    using none by (simp add: lookupByUsername_def find_append_cases getprop_def)
  have s: "session_claims ?a = [(''username'', JStr username), (''email'', JNull)]"
    by (simp add: session_claims_def omit_def)
  have v: "validateUser h cfg now' ?w1
             \<lparr>dto_username = Some username, dto_email = None, dto_password = password\<rparr>
           = (Inr (Some (jwt_sign cfg now' (session_claims ?a) None)),
              ?w1\<lparr>queries := queries ?w1 @ [ByUsername username]\<rparr>)"
    using assms(1,4) l
    by (simp add: validateUser_def present_def findByUsername_def getprop_def)
  have o: "omit [''password'', ''verifyEmail'', ''created_at'', ''updated_at''] ?a
           = [(''username'', JStr username), (''email'', JNull)]"
    by (simp add: omit_def)
  show ?thesis
    using c l v s o
    by (simp add: register_def login_def jwt_verify_sign_now jwt_payload_sign)
qed

text \<open>Registering bob next to alice and logging him in.\<close>

theorem register_then_login_witness:
  "lookupByUsername (accounts test_world) ''bob'' = None \<and>
   (\<exists>w1 w2 a token.
      register test_hasher 5 test_world
          \<lparr>dto_username = Some ''bob'', dto_email = None, dto_password = ''Secret1!''\<rparr>
        = (Created (Message ''User created successfully''), w1) \<and>
      lookupByUsername (accounts w1) ''bob'' = Some a \<and>
      login test_hasher test_config 7 w1
          \<lparr>dto_username = Some ''bob'', dto_email = None, dto_password = ''Secret1!''\<rparr>
        = (Created (LoginBody ''Login successfully'' token), w2) \<and>
      jwt_verify test_config 7 token = Inr (jwt_payload token) \<and>
      jwt_payload token
        = omit [''password'', ''verifyEmail'', ''created_at'', ''updated_at''] a \<and>
      jwt_payload token = [(''username'', JStr ''bob''), (''email'', JNull)])"
  using bob_unknown
    register_then_login [where username = "''bob''" and password = "''Secret1!''"
      and w = test_world and h = test_hasher and now = 5 and e = None and cfg = test_config
      and now' = 7, OF _ _ bob_unknown test_hasher_roundtrip]
  by simp blast

subsection \<open>Login\<close>

text \<open>
  Claim C10.  A login that supplies neither a username nor an email (absent or empty)
  returns \<^verbatim>\<open>null\<close>, which the controller reports as the bad request
  ``Wrong username/email or password'', the outcome of an unknown account or a wrong
  password.  The world is returned as it was: the query log has no new entry, so the store
  was not consulted.
\<close>

theorem login_without_identifier:
  "\<not> present (dto_username dto) \<Longrightarrow> \<not> present (dto_email dto) \<Longrightarrow>
     validateUser h cfg now w dto = (Inr None, w) \<and>
     login h cfg now w dto = (BadRequestException ''Wrong username/email or password'', w)"
  by (auto simp: validateUser_def login_def present_def split: option.splits)

text \<open>A login body with no username and an empty email.\<close>

theorem login_without_identifier_witness:
  "validateUser test_hasher test_config 5 test_world
      \<lparr>dto_username = None, dto_email = Some [], dto_password = ''Secret1!''\<rparr>
     = (Inr None, test_world) \<and>
   login test_hasher test_config 5 test_world
      \<lparr>dto_username = None, dto_email = Some [], dto_password = ''Secret1!''\<rparr>
     = (BadRequestException ''Wrong username/email or password'', test_world)"
  using login_without_identifier
    [of "\<lparr>dto_username = None, dto_email = Some [], dto_password = ''Secret1!''\<rparr>"
        test_hasher test_config 5 test_world]
  by (simp add: present_def)

text \<open>
  Claim C2, as the code has it.  A login that supplies both a non-empty username and a
  non-empty email returns \<^verbatim>\<open>null\<close> before any lookup, and the controller reports the same
  bad request ``Wrong username/email or password'' as for invalid credentials: there is no
  separate error for an ambiguous identifier.
\<close>

theorem login_both_identifiers:
  "present (dto_username dto) \<Longrightarrow> present (dto_email dto) \<Longrightarrow>
     validateUser h cfg now w dto = (Inr None, w) \<and>
     login h cfg now w dto = (BadRequestException ''Wrong username/email or password'', w)"
  by (simp add: validateUser_def login_def)

text \<open>Alice's login with her username, her email and her password.\<close>

theorem login_both_identifiers_witness:
  "login test_hasher test_config 5 test_world
      \<lparr>dto_username = Some ''alice'', dto_email = Some ''alice@x.com'',
        dto_password = ''Secret1!''\<rparr>
     = (BadRequestException ''Wrong username/email or password'', test_world)"
  using login_both_identifiers
    [of "\<lparr>dto_username = Some ''alice'', dto_email = Some ''alice@x.com'',
           dto_password = ''Secret1!''\<rparr>" test_hasher test_config 5 test_world]
  by (simp add: present_def)

text \<open>
  Against claim C2 as stated: alice's login with both her username and her email gets the
  very response of a login with a wrong password and of a login for an unknown username,
  so the caller cannot tell an ambiguous identifier from invalid credentials.
\<close>

theorem login_both_identifiers_same_as_invalid_credentials:
  "fst (login test_hasher test_config 5 test_world
      \<lparr>dto_username = Some ''alice'', dto_email = Some ''alice@x.com'',
        dto_password = ''Secret1!''\<rparr>)
     = BadRequestException ''Wrong username/email or password'' \<and>
   fst (login test_hasher test_config 5 test_world
      \<lparr>dto_username = Some ''alice'', dto_email = None, dto_password = ''wrong''\<rparr>)
     = BadRequestException ''Wrong username/email or password'' \<and>
   fst (login test_hasher test_config 5 test_world
      \<lparr>dto_username = Some ''nobody'', dto_email = None, dto_password = ''Secret1!''\<rparr>)
     = BadRequestException ''Wrong username/email or password''"
  by (simp add: login_def validateUser_def present_def findByUsername_def lookupByUsername_def
      test_world_def alice_def getprop_def test_hasher_def)

text \<open>
  Claim C5.  Let an account be stored under an email and under a username, let its
  \<^verbatim>\<open>verifyEmail\<close> flag be falsy and let the supplied password match its stored hash.  A
  login with the email as the only lookup key returns \<^verbatim>\<open>null\<close> (the bad request ``Wrong
  username/email or password''); a login with the username as the only lookup key and
  the same password returns a session token for that account.
\<close>

theorem unverified_login_by_email_fails_by_username_succeeds:
  assumes "lookupByEmail (accounts w) (JStr email) = Some a"
    and "lookupByUsername (accounts w) username = Some a"
    and "\<not> truthy (getprop a ''verifyEmail'')"
    and "bcrypt_compare h password (getprop a ''password'') = Inr True"
    and "username \<noteq> []"
  shows "fst (validateUser h cfg now w
            \<lparr>dto_username = None, dto_email = Some email, dto_password = password\<rparr>)
           = Inr None \<and>
         fst (login h cfg now w
            \<lparr>dto_username = None, dto_email = Some email, dto_password = password\<rparr>)
           = BadRequestException ''Wrong username/email or password'' \<and>
         fst (validateUser h cfg now w
            \<lparr>dto_username = Some username, dto_email = None, dto_password = password\<rparr>)
           = Inr (Some (jwt_sign cfg now (session_claims a) None)) \<and>
         fst (login h cfg now w
            \<lparr>dto_username = Some username, dto_email = None, dto_password = password\<rparr>)
           = Created (LoginBody ''Login successfully''
               (jwt_sign cfg now (session_claims a) None))"
  using assms
  by (simp add: validateUser_def login_def present_def findByEmail_def findByUsername_def)

text \<open>The unverified account alice, by email and by username.\<close>

theorem unverified_login_witness:
  "fst (login test_hasher test_config 5 test_world
      \<lparr>dto_username = None, dto_email = Some ''alice@x.com'', dto_password = ''Secret1!''\<rparr>)
     = BadRequestException ''Wrong username/email or password'' \<and>
   fst (login test_hasher test_config 5 test_world
      \<lparr>dto_username = Some ''alice'', dto_email = None, dto_password = ''Secret1!''\<rparr>)
     = Created (LoginBody ''Login successfully''
         (jwt_sign test_config 5
            [(''username'', JStr ''alice''), (''email'', JStr ''alice@x.com'')] None))"
  using unverified_login_by_email_fails_by_username_succeeds
    [OF alice_by_email alice_by_username alice_unverified alice_password,
      of test_config 5]
  by (simp add: alice_claims)

text \<open>
  Claim C6.  Whenever \<^verbatim>\<open>validateUser\<close> returns a token, there is one account that the
  login resolved and whose stored hash matched the supplied password: the account stored
  under the username when a username is supplied, else the account stored under the email,
  which is then verified.  The token is signed (it verifies at the time of the login) with
  the default options over the claims of exactly that account, from which \<^verbatim>\<open>password\<close>,
  \<^verbatim>\<open>profile\<close>, \<^verbatim>\<open>verifyEmail\<close>, \<^verbatim>\<open>created_at\<close> and \<^verbatim>\<open>updated_at\<close> were removed: the claim map
  has no password hash, no verified flag and no timestamp, and every other attribute of
  that account is in it with its value.
\<close>

theorem session_token_over_public_attributes:
  assumes "validateUser h cfg now w dto = (Inr (Some token), w')"
  shows "\<exists>a. ((\<exists>username. dto_username dto = Some username \<and> username \<noteq> [] \<and>
                   \<not> present (dto_email dto) \<and>
                   lookupByUsername (accounts w) username = Some a \<and>
                   w' = w\<lparr>queries := queries w @ [ByUsername username]\<rparr>) \<or>
               (\<exists>email. \<not> present (dto_username dto) \<and>
                   dto_email dto = Some email \<and> email \<noteq> [] \<and>
                   lookupByEmail (accounts w) (JStr email) = Some a \<and>
                   truthy (getprop a ''verifyEmail'') \<and>
                   w' = w\<lparr>queries := queries w @ [ByEmail (JStr email)]\<rparr>)) \<and>
           a \<in> set (accounts w) \<and>
           bcrypt_compare h (dto_password dto) (getprop a ''password'') = Inr True \<and>
           token = jwt_sign cfg now (session_claims a) None \<and>
           jwt_payload token = session_claims a \<and>
           jwt_verify cfg now token = Inr (session_claims a) \<and>
           getprop (jwt_payload token) ''password'' = JUndefined \<and>
           getprop (jwt_payload token) ''verifyEmail'' = JUndefined \<and>
           getprop (jwt_payload token) ''created_at'' = JUndefined \<and>
           getprop (jwt_payload token) ''updated_at'' = JUndefined \<and>
           fst ` set (jwt_payload token) =
             fst ` set a -
               {''password'', ''profile'', ''verifyEmail'', ''created_at'', ''updated_at''} \<and>
           (\<forall>k. k \<notin> {''password'', ''profile'', ''verifyEmail'', ''created_at'',
                        ''updated_at''}
                \<longrightarrow> getprop (jwt_payload token) k = getprop a k)"
proof -
  have both: "\<not> (present (dto_username dto) \<and> present (dto_email dto))"
    using assms by (auto simp: validateUser_def)
  obtain a where r: "(\<exists>username. dto_username dto = Some username \<and> username \<noteq> [] \<and>
                   \<not> present (dto_email dto) \<and>
                   lookupByUsername (accounts w) username = Some a \<and>
                   w' = w\<lparr>queries := queries w @ [ByUsername username]\<rparr>) \<or>
               (\<exists>email. \<not> present (dto_username dto) \<and>
                   dto_email dto = Some email \<and> email \<noteq> [] \<and>
                   lookupByEmail (accounts w) (JStr email) = Some a \<and>
                   truthy (getprop a ''verifyEmail'') \<and>
                   w' = w\<lparr>queries := queries w @ [ByEmail (JStr email)]\<rparr>)"
    and c: "bcrypt_compare h (dto_password dto) (getprop a ''password'') = Inr True"
    and tok: "token = jwt_sign cfg now (session_claims a) None"
  proof (cases "present (dto_username dto)")
    case True
    then obtain username where u: "dto_username dto = Some username" "username \<noteq> []"
      by (auto simp: present_def split: option.splits)
    from True both have e: "\<not> present (dto_email dto)"
      by simp
    show ?thesis
      using assms u e that
      by (auto simp: validateUser_def findByUsername_def present_def
          split: option.splits if_splits sum.splits bool.splits)
  next
    case False
    show ?thesis
      using assms False that
      by (auto simp: validateUser_def findByEmail_def present_def
          split: option.splits if_splits sum.splits bool.splits)
  qed
  have m: "a \<in> set (accounts w)"
    using r by (auto simp: lookupByUsername_def dest: find_in_set)
  have p: "getprop (session_claims a) k =
             (if k \<in> {''password'', ''profile'', ''verifyEmail'', ''created_at'',
                       ''updated_at''}
              then JUndefined else getprop a k)" for k
    by (simp add: session_claims_def getprop_omit)
  have d: "fst ` set (session_claims a) =
             fst ` set a -
               {''password'', ''profile'', ''verifyEmail'', ''created_at'', ''updated_at''}"
    by (simp add: session_claims_def keys_omit)
  show ?thesis
    using r c m d unfolding tok jwt_payload_sign jwt_verify_sign_now
    by (intro exI [of _ a]) (simp add: p)
qed

lemma carol_by_email:
  "lookupByEmail (accounts team_world) (JStr ''carol@x.com'') = Some carol"
  by (simp add: team_world_def alice_def carol_def getprop_def)

lemma carol_claims:
  "session_claims carol = [(''username'', JStr ''carol''), (''email'', JStr ''carol@x.com'')]"
  by (simp add: session_claims_def omit_def carol_def)

text \<open>
  Carol logs in by email on the store that holds alice before her: the account resolved is
  carol, and the token carries carol's username and email only.
\<close>

theorem session_token_witness:
  "validateUser test_hasher test_config 5 team_world
      \<lparr>dto_username = None, dto_email = Some ''carol@x.com'', dto_password = ''Passw0rd''\<rparr>
     = (Inr (Some (jwt_sign test_config 5
            [(''username'', JStr ''carol''), (''email'', JStr ''carol@x.com'')] None)),
        team_world\<lparr>queries := [ByEmail (JStr ''carol@x.com'')]\<rparr>) \<and>
   (\<exists>a. lookupByEmail (accounts team_world) (JStr ''carol@x.com'') = Some a \<and>
        a = carol \<and>
        bcrypt_compare test_hasher ''Passw0rd'' (getprop a ''password'') = Inr True \<and>
        jwt_payload (jwt_sign test_config 5
            [(''username'', JStr ''carol''), (''email'', JStr ''carol@x.com'')] None)
          = session_claims a \<and>
        jwt_verify test_config 5 (jwt_sign test_config 5
            [(''username'', JStr ''carol''), (''email'', JStr ''carol@x.com'')] None)
          = Inr (session_claims a))"
proof -
  let ?dto = "\<lparr>dto_username = None, dto_email = Some ''carol@x.com'',
                dto_password = ''Passw0rd''\<rparr>"
  let ?token = "jwt_sign test_config 5
            [(''username'', JStr ''carol''), (''email'', JStr ''carol@x.com'')] None"
  have c: "bcrypt_compare test_hasher ''Passw0rd'' (getprop carol ''password'') = Inr True"
    by (simp add: carol_def getprop_def test_hasher_def)
  have t: "truthy (getprop carol ''verifyEmail'')"
    by (simp add: carol_def getprop_def)
  have q: "queries team_world = []"
    by (simp add: team_world_def)
  have v: "validateUser test_hasher test_config 5 team_world ?dto
     = (Inr (Some ?token), team_world\<lparr>queries := [ByEmail (JStr ''carol@x.com'')]\<rparr>)"
    using carol_by_email c t
    by (simp add: validateUser_def present_def findByEmail_def carol_claims q)
  show ?thesis
    using v session_token_over_public_attributes [OF v]
    by (simp del: lookupByEmail.simps
        add: present_def carol_by_email q jwt_payload_sign jwt_verify_sign_now)
qed

subsection \<open>Password reset\<close>

text \<open>
  Claim C7.  When the token fails verification, for whichever reason, \<^verbatim>\<open>resetPassword\<close>
  returns status 409 and the controller throws the one conflict ``Token invalid/expired'';
  the world is returned as it was, so no account is altered and the call does not succeed.
  The outcome does not depend on the reason, so a tampered and an expired token are
  reported alike.
\<close>

theorem reset_token_rejected_uniformly:
  "jwt_verify cfg now token = Inl e \<Longrightarrow>
     resetPassword cfg now w token newPassword = (RStatus 409, w) \<and>
     ctl_resetPassword cfg now w token newPassword =
       (ConflictException ''Token invalid/expired'', w)"
  by (simp add: resetPassword_def ctl_resetPassword_def)

text \<open>A tampered token and an expired token, both rejected with the same conflict.\<close>

theorem reset_token_rejected_uniformly_witness:
  "jwt_verify test_config 10 tampered_token = Inl TokenInvalid \<and>
   jwt_verify test_config 1000 alice_token = Inl TokenExpired \<and>
   ctl_resetPassword test_config 10 test_world tampered_token ''NewSecret2!'' =
     (ConflictException ''Token invalid/expired'', test_world) \<and>
   ctl_resetPassword test_config 1000 test_world alice_token ''NewSecret2!'' =
     (ConflictException ''Token invalid/expired'', test_world)"
proof -
  have t: "jwt_verify test_config 10 tampered_token = Inl TokenInvalid"
    by (simp add: jwt_verify_def tampered_token_def jwt_sign_def test_config_def Let_def)
  have x: "jwt_verify test_config 1000 alice_token = Inl TokenExpired"
    by (simp add: jwt_verify_def alice_token_def jwt_sign_def test_config_def Let_def)
  show ?thesis
    using t x reset_token_rejected_uniformly [OF t, of test_world "''NewSecret2!''"]
      reset_token_rejected_uniformly [OF x, of test_world "''NewSecret2!''"]
    by simp
qed

text \<open>
  Claim C4 does not hold of the code.  When the token verifies and its email claim resolves
  to a stored account, \<^verbatim>\<open>resetPassword\<close> succeeds with no payload, but it never calls the
  hasher: it hands \<^verbatim>\<open>newPassword\<close> itself to \<^verbatim>\<open>updatePassword\<close>, so the account found under
  that email afterwards has the plaintext as its \<^verbatim>\<open>password\<close>.
\<close>

theorem reset_password_stores_plaintext:
  assumes "jwt_verify cfg now token = Inr decoded"
    and "lookupByEmail (accounts w) (getprop decoded ''email'') = Some a"
  shows "\<exists>w' a'.
           resetPassword cfg now w token newPassword = (RVoid, w') \<and>
           fst (ctl_resetPassword cfg now w token newPassword)
             = Created (Message ''New password set'') \<and>
           lookupByEmail (accounts w') (getprop decoded ''email'') = Some a' \<and>
           getprop a' ''password'' = JStr newPassword"
proof -
  obtain email where e: "getprop decoded ''email'' = JStr email"
    using assms(2) by (cases "getprop decoded ''email''") simp_all
  let ?w1 = "w\<lparr>queries := queries w @ [ByEmail (JStr email)]\<rparr>"
  have l: "lookupByEmail (accounts (updatePassword ?w1 a newPassword)) (JStr email)
             = Some (setprop a ''password'' (JStr newPassword))"
    using assms(2) e by (intro lookupByEmail_updatePassword) simp
  have r: "resetPassword cfg now w token newPassword
             = (RVoid, updatePassword ?w1 a newPassword)"
    using assms e by (simp add: resetPassword_def findByEmail_def Let_def)
  show ?thesis
    using l r e by (simp add: ctl_resetPassword_def getprop_setprop)
qed

text \<open>
  Alice resets her password to \<open>NewSecret2!\<close>: the stored value is that string, not
  the hasher's output for it.
\<close>

theorem reset_password_stores_plaintext_witness:
  "jwt_verify test_config 10 alice_token = Inr [(''email'', JStr ''alice@x.com'')] \<and>
   lookupByEmail (accounts test_world) (JStr ''alice@x.com'') = Some alice \<and>
   (\<exists>w' a'.
      resetPassword test_config 10 test_world alice_token ''NewSecret2!'' = (RVoid, w') \<and>
      lookupByEmail (accounts w') (JStr ''alice@x.com'') = Some a' \<and>
      getprop a' ''password'' = JStr ''NewSecret2!'' \<and>
      getprop a' ''password'' \<noteq> JStr (bcrypt_hash test_hasher ''NewSecret2!'' 12))"
proof -
  have l: "lookupByEmail (accounts test_world)
             (getprop [(''email'', JStr ''alice@x.com'')] ''email'') = Some alice"
    by (simp only: alice_token_email alice_by_email)
  show ?thesis
    using alice_token_verifies alice_by_email
      reset_password_stores_plaintext [OF alice_token_verifies l, of "''NewSecret2!''"]
    by (auto simp: alice_token_email test_hasher_def)
qed

subsection \<open>Email verification\<close>



text \<open>
  Claim C3, as the code has it.  For the email of a stored, unverified account (and a
  reachable mailer), \<^verbatim>\<open>forgotPassword\<close> and \<^verbatim>\<open>verifyEmail\<close> called at the same time mail the
  same token: both sign the claims \<^verbatim>\<open>{ email }\<close> with the expiry \<^verbatim>\<open>env.mailer.time\<close> and no
  purpose tag, and only the path of the link differs.  Until it expires, the token mailed
  by \<^verbatim>\<open>forgotPassword\<close> is accepted by \<^verbatim>\<open>verify\<close>, and the token mailed by \<^verbatim>\<open>verifyEmail\<close> is
  accepted by \<^verbatim>\<open>resetPassword\<close>.
\<close>

theorem reset_and_verification_tokens_interchangeable:
  assumes "lookupByEmail (accounts w) (JStr email) = Some a" and "mailer_up w"
    and "\<not> truthy (getprop a ''verifyEmail'')"
    and "now' \<le> now + mailer_time cfg"
  shows "\<exists>w1 w2 m1 m2 token.
           token = jwt_sign cfg now [(''email'', JStr email)] (Some (mailer_time cfg)) \<and>
           forgotPassword cfg now w email = (Inr RVoid, w1) \<and>
           outbox w1 = outbox w @ [m1] \<and>
           mail_link m1 = Link (dns cfg) ''/reset-password?token='' token \<and>
           verifyEmail cfg now w email = (Inr RVoid, w2) \<and>
           outbox w2 = outbox w @ [m2] \<and>
           mail_link m2 = Link (dns cfg) ''/verify?token='' token \<and>
           fst (verify cfg now' w1 token) = RMessage ''Verified'' \<and>
           fst (acceptVerifyEmail cfg now' w1 token) = Created (Message ''Verified'') \<and>
           fst (resetPassword cfg now' w2 token newPassword) = RVoid \<and>
           fst (ctl_resetPassword cfg now' w2 token newPassword)
             = Created (Message ''New password set'')"
proof -
  let ?token = "jwt_sign cfg now [(''email'', JStr email)] (Some (mailer_time cfg))"
  have t: "jwt_verify cfg now' ?token = Inr [(''email'', JStr email)]"
    using assms(4) by (simp add: jwt_verify_sign) (simp add: jwt_sign_def Let_def)
  have e: "getprop [(''email'', JStr email)] ''email'' = JStr email"
    by (simp add: getprop_def)
  have f: "forgotPassword cfg now w email =
             (Inr RVoid,
              w\<lparr>queries := queries w @ [ByEmail (JStr email)],
                outbox := outbox w @
                  [\<lparr>mail_to = email, mail_subject = ''Reset password'',
                    mail_text = ''Dear user,\<newline>\<newline>We received a request to reset your password...'',
                    mail_link = Link (dns cfg) ''/reset-password?token='' ?token,
                    mail_expires = mailer_time cfg\<rparr>]\<rparr>)"
    using assms(1,2) by (simp add: forgotPassword_def findByEmail_def sendMail_def Let_def)
  have v: "verifyEmail cfg now w email =
             (Inr RVoid,
              w\<lparr>queries := queries w @ [ByEmail (JStr email)],
                outbox := outbox w @
                  [\<lparr>mail_to = email, mail_subject = ''Verify email'',
                    mail_text = ''Dear user,\<newline>\<newline>We received a request to verify your email...'',
                    mail_link = Link (dns cfg) ''/verify?token='' ?token,
                    mail_expires = mailer_time cfg\<rparr>]\<rparr>)"
    using assms(1,2,3) by (simp add: verifyEmail_def findByEmail_def sendMail_def Let_def)
  have a1: "\<And>w'. accounts w' = accounts w \<Longrightarrow>
              fst (verify cfg now' w' ?token) = RMessage ''Verified''"
    using assms(1) t e by (simp add: verify_def findByEmail_def Let_def)
  have a2: "\<And>w'. accounts w' = accounts w \<Longrightarrow>
              fst (resetPassword cfg now' w' ?token newPassword) = RVoid"
    using assms(1) t e by (simp add: resetPassword_def findByEmail_def Let_def)
  show ?thesis
    unfolding f v
    by (simp add: a1 a2 acceptVerifyEmail_def ctl_resetPassword_def split_beta)
qed

text \<open>Both requests for alice at time 0, and both tokens consumed at time 10.\<close>

theorem reset_and_verification_tokens_witness:
  "lookupByEmail (accounts test_world) (JStr ''alice@x.com'') = Some alice \<and>
   mailer_up test_world \<and> \<not> truthy (getprop alice ''verifyEmail'') \<and>
   (\<exists>w1 w2 m1 m2.
      forgotPassword test_config 0 test_world ''alice@x.com'' = (Inr RVoid, w1) \<and>
      outbox w1 = outbox test_world @ [m1] \<and>
      mail_link m1 = Link ''https://example.org'' ''/reset-password?token='' alice_token \<and>
      verifyEmail test_config 0 test_world ''alice@x.com'' = (Inr RVoid, w2) \<and>
      outbox w2 = outbox test_world @ [m2] \<and>
      mail_link m2 = Link ''https://example.org'' ''/verify?token='' alice_token \<and>
      fst (acceptVerifyEmail test_config 10 w1 alice_token) = Created (Message ''Verified'') \<and>
      fst (ctl_resetPassword test_config 10 w2 alice_token ''NewSecret2!'')
        = Created (Message ''New password set''))"
proof -
  have u: "mailer_up test_world"
    by (simp add: test_world_def)
  have n: "(10::nat) \<le> 0 + mailer_time test_config"
    by (simp add: test_config_def)
  have c: "mailer_time test_config = 900" "dns test_config = ''https://example.org''"
    by (simp_all add: test_config_def)
  show ?thesis
    using alice_by_email u alice_unverified
      reset_and_verification_tokens_interchangeable
        [OF alice_by_email u alice_unverified n, of "''NewSecret2!''"]
    unfolding alice_token_def c
    by simp blast
qed

text \<open>
  Against claim C3 as stated: the token that \<^verbatim>\<open>forgotPassword\<close> mails to alice for a
  password reset is accepted by the verification route, which marks her account verified.
\<close>

theorem reset_token_accepted_for_verification:
  "fst (ctl_forgotPassword test_config 0 test_world ''alice@x.com'')
     = Created (Message ''Reset link sent'') \<and>
   map mail_link (outbox (snd (ctl_forgotPassword test_config 0 test_world ''alice@x.com'')))
     = [Link ''https://example.org'' ''/reset-password?token='' alice_token] \<and>
   fst (acceptVerifyEmail test_config 10
          (snd (ctl_forgotPassword test_config 0 test_world ''alice@x.com'')) alice_token)
     = Created (Message ''Verified'') \<and>
   map (\<lambda>a. getprop a ''verifyEmail'')
     (accounts (snd (acceptVerifyEmail test_config 10
          (snd (ctl_forgotPassword test_config 0 test_world ''alice@x.com'')) alice_token)))
     = [JBool True]"
proof -
  have f: "ctl_forgotPassword test_config 0 test_world ''alice@x.com'' =
     (Created (Message ''Reset link sent''),
      test_world\<lparr>queries := [ByEmail (JStr ''alice@x.com'')],
        outbox := [\<lparr>mail_to = ''alice@x.com'', mail_subject = ''Reset password'',
           mail_text = ''Dear user,\<newline>\<newline>We received a request to reset your password...'',
           mail_link = Link ''https://example.org'' ''/reset-password?token='' alice_token,
           mail_expires = 900\<rparr>]\<rparr>)"
    using alice_by_email
    by (simp add: ctl_forgotPassword_def forgotPassword_def findByEmail_def sendMail_def Let_def
        alice_token_def) (simp add: test_world_def test_config_def)
  have a: "accounts (test_world\<lparr>queries := q, outbox := ob\<rparr>) = [alice]" for q ob
    by (simp add: test_world_def)
  show ?thesis
    unfolding f
    using alice_token_verifies alice_by_email
    by (simp add: acceptVerifyEmail_def verify_def findByEmail_def Let_def alice_token_email
        updateVerifyEmail_def a)
      (simp add: test_world_def alice_def setprop_def getprop_def)
qed

end
